theory Spec2Isabelle
  imports Complex_Main "HOL-Library.Word"
begin

section \<open>Fake quantization, per tensor affine (CPU)\<close>

text \<open>
  A shallow embedding of
  \<^verbatim>\<open>aten/src/ATen/native/quantized/cpu/fake_quantize_per_tensor_affine.cpp\<close>:
  the two operators \<^verbatim>\<open>fake_quantize_per_tensor_affine_cpu\<close> (forward) and
  \<^verbatim>\<open>fake_quantize_per_tensor_affine_backward_cpu\<close> (backward).

  The file only composes operators of the tensor library (\<^verbatim>\<open>* + - floor clamp_min
  clamp_max >= <= type_as empty_like zeros_like copy_\<close>); the library itself is not
  part of the file. The elementwise arithmetic is therefore a parameter of the model
  (the record \<open>arith\<close> below), and every theorem that quantifies over it holds for
  whatever arithmetic the library supplies. One instance, \<open>ieee_ops\<close>, models the
  IEEE 754 special values and is used where a statement needs concrete numbers.
\<close>

subsection \<open>Data\<close>

text \<open>
  \<^verbatim>\<open>int64_t\<close> parameters are only compared with each other and with literals, and
  handed to the tensor library as scalars; no arithmetic is done on them here, so they
  are modelled as integers.
\<close>

type_synonym int64_t = int

text \<open>
  Element types of a tensor (\<^verbatim>\<open>ScalarType\<close>; the list is not complete). The file tests
  for \<open>Float\<close> only; comparisons return \<open>Byte\<close> tensors.
\<close>

datatype ScalarType = Byte | Short | Long | Half | Float | Double

text \<open>
  \<^verbatim>\<open>Scalar\<close>: the number a tensor operator takes beside a tensor. A C++
  \<^verbatim>\<open>double\<close> or \<^verbatim>\<open>float\<close> argument is held as a double, an \<^verbatim>\<open>int64_t\<close>
  argument as an integer.
\<close>

datatype 'd Scalar = ScalarDouble 'd | ScalarLong int64_t

text \<open>
  A tensor, as far as this file looks at it: its element type and its elements in
  order. Shapes and strides are not modelled; \<^verbatim>\<open>numel\<close> is the number of elements.
\<close>

record 'a Tensor =
  scalar_type :: ScalarType
  data :: "'a list"

definition numel :: "'a Tensor \<Rightarrow> int" where
  "numel t = int (length (data t))"

text \<open>
  The exceptions of the two operators, one constructor for each distinguishable throw:
  \<^item> \<open>TorchCheckFailed\<close>: \<^verbatim>\<open>TORCH_CHECK(self.scalar_type() == ScalarType::Float)\<close>;
  \<^item> \<open>InvalidRange\<close>: \<^verbatim>\<open>std::invalid_argument\<close>, "`quant_min` should be less than or
    equal to `quant_max`.";
  \<^item> \<open>InvalidZeroPoint\<close>: \<^verbatim>\<open>std::invalid_argument\<close>, "`zero_point` must be a positive
    integer.";
  \<^item> \<open>InvalidDelay\<close>: \<^verbatim>\<open>std::invalid_argument\<close>, "`quant_delay` must be a positive
    integer.";
  \<^item> \<open>InvalidIteration\<close>: \<^verbatim>\<open>std::invalid_argument\<close>, "`iter` must be >=0 for non-zero
    `quant_delay`";
  \<^item> \<open>EmptyInput\<close>: \<^verbatim>\<open>std::length_error\<close>, "`X` is empty";
  \<^item> \<open>SizeMismatch\<close>: \<^verbatim>\<open>std::invalid_argument\<close>, "`X` and `dY` are not the same
    size".
\<close>

datatype error =
  TorchCheckFailed
  | InvalidRange
  | InvalidZeroPoint
  | InvalidDelay
  | InvalidIteration
  | EmptyInput
  | SizeMismatch

subsection \<open>The arithmetic of the tensor library, as a parameter\<close>

text \<open>
  \<open>'e\<close> is the type of a tensor element, \<open>'d\<close> the C++ \<^verbatim>\<open>double\<close>.
  \<^item> \<open>lit_one\<close> and \<open>lit_half\<close> are the literals \<^verbatim>\<open>1.0f\<close> and \<^verbatim>\<open>0.5f\<close>/\<^verbatim>\<open>0.5\<close>
    as doubles, \<open>div_d\<close> is the division of two doubles;
  \<^item> \<open>mul_s\<close>, \<open>add_s\<close>, \<open>sub_s\<close>, \<open>clamp_min_s\<close>, \<open>clamp_max_s\<close> combine one
    element with a \<^verbatim>\<open>Scalar\<close>; \<open>ge_s\<close> and \<open>le_s\<close> compare one element with a
    \<^verbatim>\<open>Scalar\<close>; \<open>floor_e\<close> rounds one element down;
  \<^item> \<open>mul_e\<close> multiplies two elements; \<open>of_byte\<close> converts an element of a byte
    tensor to an element (\<^verbatim>\<open>type_as\<close>);
  \<^item> \<open>zero_e\<close> is the element \<^verbatim>\<open>zeros_like\<close> fills with, \<open>uninit_e\<close> stands for
    what \<^verbatim>\<open>empty_like\<close> leaves in fresh storage.
\<close>

record ('e, 'd) arith =
  lit_one :: 'd
  lit_half :: 'd
  div_d :: "'d \<Rightarrow> 'd \<Rightarrow> 'd"
  mul_s :: "'e \<Rightarrow> 'd Scalar \<Rightarrow> 'e"
  add_s :: "'e \<Rightarrow> 'd Scalar \<Rightarrow> 'e"
  sub_s :: "'e \<Rightarrow> 'd Scalar \<Rightarrow> 'e"
  floor_e :: "'e \<Rightarrow> 'e"
  clamp_min_s :: "'e \<Rightarrow> 'd Scalar \<Rightarrow> 'e"
  clamp_max_s :: "'e \<Rightarrow> 'd Scalar \<Rightarrow> 'e"
  ge_s :: "'e \<Rightarrow> 'd Scalar \<Rightarrow> bool"
  le_s :: "'e \<Rightarrow> 'd Scalar \<Rightarrow> bool"
  of_byte :: "8 word \<Rightarrow> 'e"
  mul_e :: "'e \<Rightarrow> 'e \<Rightarrow> 'e"
  zero_e :: 'e
  uninit_e :: 'e

subsection \<open>Tensor operators\<close>

text \<open>
  An operator between a tensor and a \<^verbatim>\<open>Scalar\<close> works element by element and
  returns a new tensor of the tensor operand's element type.
\<close>

definition t_mul_s :: "('e, 'd) arith \<Rightarrow> 'e Tensor \<Rightarrow> 'd Scalar \<Rightarrow> 'e Tensor" where
  "t_mul_s ops t s = t\<lparr>data := map (\<lambda>x. mul_s ops x s) (data t)\<rparr>"

definition t_add_s :: "('e, 'd) arith \<Rightarrow> 'e Tensor \<Rightarrow> 'd Scalar \<Rightarrow> 'e Tensor" where
  "t_add_s ops t s = t\<lparr>data := map (\<lambda>x. add_s ops x s) (data t)\<rparr>"

definition t_sub_s :: "('e, 'd) arith \<Rightarrow> 'e Tensor \<Rightarrow> 'd Scalar \<Rightarrow> 'e Tensor" where
  "t_sub_s ops t s = t\<lparr>data := map (\<lambda>x. sub_s ops x s) (data t)\<rparr>"

definition t_floor :: "('e, 'd) arith \<Rightarrow> 'e Tensor \<Rightarrow> 'e Tensor" where
  "t_floor ops t = t\<lparr>data := map (floor_e ops) (data t)\<rparr>"

definition clamp_min :: "('e, 'd) arith \<Rightarrow> 'e Tensor \<Rightarrow> 'd Scalar \<Rightarrow> 'e Tensor" where
  "clamp_min ops t s = t\<lparr>data := map (\<lambda>x. clamp_min_s ops x s) (data t)\<rparr>"

definition clamp_max :: "('e, 'd) arith \<Rightarrow> 'e Tensor \<Rightarrow> 'd Scalar \<Rightarrow> 'e Tensor" where
  "clamp_max ops t s = t\<lparr>data := map (\<lambda>x. clamp_max_s ops x s) (data t)\<rparr>"

text \<open>
  A comparison with a \<^verbatim>\<open>Scalar\<close> returns a byte tensor holding 1 where the comparison
  is true and 0 where it is not; two byte tensors are multiplied as bytes.
\<close>

definition t_ge_s :: "('e, 'd) arith \<Rightarrow> 'e Tensor \<Rightarrow> 'd Scalar \<Rightarrow> 8 word Tensor" where
  "t_ge_s ops t s = \<lparr>scalar_type = Byte, data = map (\<lambda>x. of_bool (ge_s ops x s)) (data t)\<rparr>"

definition t_le_s :: "('e, 'd) arith \<Rightarrow> 'e Tensor \<Rightarrow> 'd Scalar \<Rightarrow> 8 word Tensor" where
  "t_le_s ops t s = \<lparr>scalar_type = Byte, data = map (\<lambda>x. of_bool (le_s ops x s)) (data t)\<rparr>"

definition byte_mul :: "8 word Tensor \<Rightarrow> 8 word Tensor \<Rightarrow> 8 word Tensor" where
  "byte_mul a b = a\<lparr>data := map2 (\<lambda>x y. x * y) (data a) (data b)\<rparr>"

definition type_as :: "('e, 'd) arith \<Rightarrow> 8 word Tensor \<Rightarrow> 'e Tensor \<Rightarrow> 'e Tensor" where
  "type_as ops m t = \<lparr>scalar_type = scalar_type t, data = map (of_byte ops) (data m)\<rparr>"

text \<open>
  The product of two tensors of one element type and one number of elements, element
  by element (the backward operator checks the numbers of elements before it multiplies).
\<close>

definition t_mul :: "('e, 'd) arith \<Rightarrow> 'e Tensor \<Rightarrow> 'e Tensor \<Rightarrow> 'e Tensor" where
  "t_mul ops a b = a\<lparr>data := map2 (mul_e ops) (data a) (data b)\<rparr>"

definition empty_like :: "('e, 'd) arith \<Rightarrow> 'e Tensor \<Rightarrow> 'e Tensor" where
  "empty_like ops t = t\<lparr>data := replicate (length (data t)) (uninit_e ops)\<rparr>"

definition zeros_like :: "('e, 'd) arith \<Rightarrow> 'e Tensor \<Rightarrow> 'e Tensor" where
  "zeros_like ops t = t\<lparr>data := replicate (length (data t)) (zero_e ops)\<rparr>"

text \<open>
  \<open>copy_from dst src\<close> is \<^verbatim>\<open>dst.copy_(src)\<close>: it overwrites the elements of \<open>dst\<close> with those of \<open>src\<close>; both
  uses below copy into a tensor made by \<^verbatim>\<open>empty_like\<close>/\<^verbatim>\<open>zeros_like\<close> of the
  source, so element type and number of elements agree.
\<close>

definition copy_from :: "'e Tensor \<Rightarrow> 'e Tensor \<Rightarrow> 'e Tensor" where
  "copy_from dst src = dst\<lparr>data := data src\<rparr>"

subsection \<open>The forward operator\<close>

definition fake_quantize_per_tensor_affine_cpu ::
  "('e, 'd) arith \<Rightarrow> 'e Tensor \<Rightarrow> 'd \<Rightarrow> int64_t \<Rightarrow> int64_t \<Rightarrow> int64_t \<Rightarrow> int64_t \<Rightarrow> int64_t
    \<Rightarrow> error + 'e Tensor" where
  "fake_quantize_per_tensor_affine_cpu ops self scale zero_point quant_min quant_max
      quant_delay iter =
    (if scalar_type self \<noteq> Float then Inl TorchCheckFailed
     else if quant_min > quant_max then Inl InvalidRange
     else if zero_point < 0 then Inl InvalidZeroPoint
     else if quant_delay < 0 then Inl InvalidDelay
     else if quant_delay \<noteq> 0 \<and> iter < 0 then Inl InvalidIteration
     else
       let Y = empty_like ops self in
       if quant_delay > 0 \<and> iter \<le> quant_delay then Inr (copy_from Y self)
       else
         let inv_scale = div_d ops (lit_one ops) scale;
             Y = t_mul_s ops
                   (t_sub_s ops
                     (clamp_max ops
                       (clamp_min ops
                         (t_add_s ops
                           (t_floor ops
                             (t_add_s ops (t_mul_s ops self (ScalarDouble inv_scale))
                               (ScalarDouble (lit_half ops))))
                           (ScalarLong zero_point))
                         (ScalarLong quant_min))
                       (ScalarLong quant_max))
                     (ScalarLong zero_point))
                   (ScalarDouble scale)
         in Inr Y)"

subsection \<open>The backward operator\<close>

definition fake_quantize_per_tensor_affine_backward_cpu ::
  "('e, 'd) arith \<Rightarrow> 'e Tensor \<Rightarrow> 'e Tensor \<Rightarrow> 'd \<Rightarrow> int64_t \<Rightarrow> int64_t \<Rightarrow> int64_t \<Rightarrow> int64_t
    \<Rightarrow> int64_t \<Rightarrow> error + 'e Tensor" where
  "fake_quantize_per_tensor_affine_backward_cpu ops dY X scale zero_point quant_min quant_max
      quant_delay iter =
    (if quant_min > quant_max then Inl InvalidRange
     else if zero_point < 0 then Inl InvalidZeroPoint
     else if quant_delay < 0 then Inl InvalidDelay
     else if numel X \<le> 0 then Inl EmptyInput
     else if numel X \<noteq> numel dY then Inl SizeMismatch
     else if quant_delay \<noteq> 0 \<and> iter < 0 then Inl InvalidIteration
     else
       let dX = zeros_like ops dY in
       if quant_delay > 0 \<and> iter \<le> quant_delay then Inr (copy_from dX dY)
       else
         let inv_scale = div_d ops (lit_one ops) scale;
             Xq = t_add_s ops
                    (t_floor ops
                      (t_add_s ops (t_mul_s ops X (ScalarDouble inv_scale))
                        (ScalarDouble (lit_half ops))))
                    (ScalarLong zero_point);
             mask_min = t_ge_s ops Xq (ScalarLong quant_min);
             mask_max = t_le_s ops Xq (ScalarLong quant_max);
             mask = byte_mul mask_min mask_max;
             dX = t_mul ops (type_as ops mask dY) dY
         in Inr dX)"

subsection \<open>The statements of the specification, element by element\<close>

text \<open>
  The forward formula of the specification for one element \<open>x\<close>:
  \<^verbatim>\<open>(clamp(floor(x * (1/scale) + 0.5) + zero_point, quant_min, quant_max) - zero_point) * scale\<close>,
  with \<^verbatim>\<open>clamp(v, lo, hi)\<close> the lower bound applied first and the upper bound second.
\<close>

definition pre_clamp :: "('e, 'd) arith \<Rightarrow> 'd \<Rightarrow> int64_t \<Rightarrow> 'e \<Rightarrow> 'e" where
  "pre_clamp ops scale zero_point x =
     add_s ops
       (floor_e ops
         (add_s ops (mul_s ops x (ScalarDouble (div_d ops (lit_one ops) scale)))
           (ScalarDouble (lit_half ops))))
       (ScalarLong zero_point)"

definition forward_formula ::
  "('e, 'd) arith \<Rightarrow> 'd \<Rightarrow> int64_t \<Rightarrow> int64_t \<Rightarrow> int64_t \<Rightarrow> 'e \<Rightarrow> 'e" where
  "forward_formula ops scale zero_point quant_min quant_max x =
     mul_s ops
       (sub_s ops
         (clamp_max_s ops
           (clamp_min_s ops (pre_clamp ops scale zero_point x) (ScalarLong quant_min))
           (ScalarLong quant_max))
         (ScalarLong zero_point))
       (ScalarDouble scale)"

text \<open>
  The mask of the backward operator for one element: the value before clamping lies in
  \<^verbatim>\<open>[quant_min, quant_max]\<close>, both bounds included.
\<close>

definition in_range ::
  "('e, 'd) arith \<Rightarrow> 'd \<Rightarrow> int64_t \<Rightarrow> int64_t \<Rightarrow> int64_t \<Rightarrow> 'e \<Rightarrow> bool" where
  "in_range ops scale zero_point quant_min quant_max x =
     (ge_s ops (pre_clamp ops scale zero_point x) (ScalarLong quant_min) \<and>
      le_s ops (pre_clamp ops scale zero_point x) (ScalarLong quant_max))"

text \<open>
  The backward rule as the specification writes it, by selection:
  \<^verbatim>\<open>dX[i] = mask[i] ? dY[i] : 0\<close>.
\<close>

definition select_formula ::
  "('e, 'd) arith \<Rightarrow> 'd \<Rightarrow> int64_t \<Rightarrow> int64_t \<Rightarrow> int64_t \<Rightarrow> 'e \<Rightarrow> 'e \<Rightarrow> 'e" where
  "select_formula ops scale zero_point quant_min quant_max x g =
     (if in_range ops scale zero_point quant_min quant_max x then g else zero_e ops)"

text \<open>
  The backward rule by multiplication: the 0/1 mask, converted to the element type of
  \<open>dY\<close>, times the element of \<open>dY\<close>.
\<close>

definition product_formula ::
  "('e, 'd) arith \<Rightarrow> 'd \<Rightarrow> int64_t \<Rightarrow> int64_t \<Rightarrow> int64_t \<Rightarrow> 'e \<Rightarrow> 'e \<Rightarrow> 'e" where
  "product_formula ops scale zero_point quant_min quant_max x g =
     mul_e ops
       (of_byte ops (of_bool (in_range ops scale zero_point quant_min quant_max x))) g"




text \<open>
  A validation as a list of checks, each a violated condition and its error: the error
  reported is that of the first violated check, if there is one.
\<close>

definition first_violated :: "(bool \<times> error) list \<Rightarrow> error option" where
  "first_violated checks = map_option snd (find fst checks)"

definition forward_checks ::
  "'e Tensor \<Rightarrow> int64_t \<Rightarrow> int64_t \<Rightarrow> int64_t \<Rightarrow> int64_t \<Rightarrow> int64_t \<Rightarrow> (bool \<times> error) list" where
  "forward_checks self zero_point quant_min quant_max quant_delay iter =
     [(scalar_type self \<noteq> Float, TorchCheckFailed),
      (quant_min > quant_max, InvalidRange),
      (zero_point < 0, InvalidZeroPoint),
      (quant_delay < 0, InvalidDelay),
      (quant_delay \<noteq> 0 \<and> iter < 0, InvalidIteration)]"

definition backward_checks ::
  "'e Tensor \<Rightarrow> 'e Tensor \<Rightarrow> int64_t \<Rightarrow> int64_t \<Rightarrow> int64_t \<Rightarrow> int64_t \<Rightarrow> int64_t
    \<Rightarrow> (bool \<times> error) list" where
  "backward_checks dY X zero_point quant_min quant_max quant_delay iter =
     [(quant_min > quant_max, InvalidRange),
      (zero_point < 0, InvalidZeroPoint),
      (quant_delay < 0, InvalidDelay),
      (numel X \<le> 0, EmptyInput),
      (numel X \<noteq> numel dY, SizeMismatch),
      (quant_delay \<noteq> 0 \<and> iter < 0, InvalidIteration)]"

text \<open>The order of the checks as the specification lists it for the backward operator.\<close>

definition backward_checks_spec ::
  "'e Tensor \<Rightarrow> 'e Tensor \<Rightarrow> int64_t \<Rightarrow> int64_t \<Rightarrow> int64_t \<Rightarrow> int64_t \<Rightarrow> int64_t
    \<Rightarrow> (bool \<times> error) list" where
  "backward_checks_spec dY X zero_point quant_min quant_max quant_delay iter =
     [(quant_min > quant_max, InvalidRange),
      (zero_point < 0, InvalidZeroPoint),
      (quant_delay < 0, InvalidDelay),
      (quant_delay \<noteq> 0 \<and> iter < 0, InvalidIteration),
      (numel X \<le> 0, EmptyInput),
      (numel X \<noteq> numel dY, SizeMismatch)]"

text \<open>The error of a result, if it is one.\<close>

definition error_of :: "error + 'a \<Rightarrow> error option" where
  "error_of r = (case r of Inl e \<Rightarrow> Some e | Inr _ \<Rightarrow> None)"

subsection \<open>An instance of the arithmetic: IEEE 754 special values\<close>

text \<open>
  Modelled from the spec: the elementwise arithmetic primitives of the tensor type
  (\<^verbatim>\<open>+ - * / floor clamp\<close> and the comparisons) on IEEE 754 values, which the
  tensor library supplies and this file does not contain. A value is a finite number,
  an infinity (\<open>Inf False\<close> is +inf, \<open>Inf True\<close> is -inf) or not-a-number. The special
  values follow IEEE 754: 0 times an infinity, the difference of two equal infinities,
  0/0 and inf/inf are NaN; a NaN operand gives NaN; a non-zero number divided by 0 is
  an infinity; every comparison with NaN is false. On finite values the operations are
  exact: rounding, overflow to infinity and the sign of zero are not modelled. Float
  and double elements are both values of this type. The instance serves to evaluate the
  operators at concrete inputs; the statements about the operators quantify over the
  arithmetic.
\<close>

datatype fp = Fin rat | Inf bool | NaN

abbreviation PInf :: fp where "PInf \<equiv> Inf False"
abbreviation NInf :: fp where "NInf \<equiv> Inf True"

fun fp_neg :: "fp \<Rightarrow> fp" where
  "fp_neg (Fin a) = Fin (- a)"
| "fp_neg (Inf s) = Inf (\<not> s)"
| "fp_neg NaN = NaN"

fun fp_add :: "fp \<Rightarrow> fp \<Rightarrow> fp" where
  "fp_add (Fin a) (Fin b) = Fin (a + b)"
| "fp_add (Fin a) (Inf t) = Inf t"
| "fp_add (Inf s) (Fin b) = Inf s"
| "fp_add (Inf s) (Inf t) = (if s = t then Inf s else NaN)"
| "fp_add NaN y = NaN"
| "fp_add x NaN = NaN"

definition fp_sub :: "fp \<Rightarrow> fp \<Rightarrow> fp" where
  "fp_sub x y = fp_add x (fp_neg y)"

fun fp_mul :: "fp \<Rightarrow> fp \<Rightarrow> fp" where
  "fp_mul (Fin a) (Fin b) = Fin (a * b)"
| "fp_mul (Fin a) (Inf t) = (if a = 0 then NaN else Inf (t \<noteq> (a < 0)))"
| "fp_mul (Inf s) (Fin b) = (if b = 0 then NaN else Inf (s \<noteq> (b < 0)))"
| "fp_mul (Inf s) (Inf t) = Inf (s \<noteq> t)"
| "fp_mul NaN y = NaN"
| "fp_mul x NaN = NaN"

fun fp_div :: "fp \<Rightarrow> fp \<Rightarrow> fp" where
  "fp_div (Fin a) (Fin b) =
     (if b = 0 then (if a = 0 then NaN else Inf (a < 0)) else Fin (a / b))"
| "fp_div (Fin a) (Inf t) = Fin 0"
| "fp_div (Inf s) (Fin b) = Inf (s \<noteq> (b < 0))"
| "fp_div (Inf s) (Inf t) = NaN"
| "fp_div NaN y = NaN"
| "fp_div x NaN = NaN"

fun fp_floor :: "fp \<Rightarrow> fp" where
  "fp_floor (Fin a) = Fin (of_int \<lfloor>a\<rfloor>)"
| "fp_floor (Inf s) = Inf s"
| "fp_floor NaN = NaN"

fun fp_less :: "fp \<Rightarrow> fp \<Rightarrow> bool" where
  "fp_less (Fin a) (Fin b) = (a < b)"
| "fp_less (Fin a) (Inf t) = (\<not> t)"
| "fp_less (Inf s) (Fin b) = s"
| "fp_less (Inf s) (Inf t) = (s \<and> \<not> t)"
| "fp_less NaN y = False"
| "fp_less x NaN = False"

fun fp_le :: "fp \<Rightarrow> fp \<Rightarrow> bool" where
  "fp_le (Fin a) (Fin b) = (a \<le> b)"
| "fp_le (Fin a) (Inf t) = (\<not> t)"
| "fp_le (Inf s) (Fin b) = s"
| "fp_le (Inf s) (Inf t) = (s \<or> \<not> t)"
| "fp_le NaN y = False"
| "fp_le x NaN = False"

text \<open>A \<^verbatim>\<open>Scalar\<close> as a value: a double is itself, an integer is converted exactly.\<close>

fun fp_of_scalar :: "fp Scalar \<Rightarrow> fp" where
  "fp_of_scalar (ScalarDouble d) = d"
| "fp_of_scalar (ScalarLong i) = Fin (of_int i)"

text \<open>
  The clamps keep a NaN element: \<^verbatim>\<open>x < lo ? lo : x\<close> and \<^verbatim>\<open>x > hi ? hi : x\<close>.
\<close>

definition fp_clamp_min :: "fp \<Rightarrow> fp \<Rightarrow> fp" where
  "fp_clamp_min x lo = (if fp_less x lo then lo else x)"

definition fp_clamp_max :: "fp \<Rightarrow> fp \<Rightarrow> fp" where
  "fp_clamp_max x hi = (if fp_less hi x then hi else x)"

definition ieee_ops :: "(fp, fp) arith" where
  "ieee_ops =
     \<lparr>lit_one = Fin 1,
      lit_half = Fin (1 / 2),
      div_d = fp_div,
      mul_s = (\<lambda>x s. fp_mul x (fp_of_scalar s)),
      add_s = (\<lambda>x s. fp_add x (fp_of_scalar s)),
      sub_s = (\<lambda>x s. fp_sub x (fp_of_scalar s)),
      floor_e = fp_floor,
      clamp_min_s = (\<lambda>x s. fp_clamp_min x (fp_of_scalar s)),
      clamp_max_s = (\<lambda>x s. fp_clamp_max x (fp_of_scalar s)),
      ge_s = (\<lambda>x s. fp_le (fp_of_scalar s) x),
      le_s = (\<lambda>x s. fp_le x (fp_of_scalar s)),
      of_byte = (\<lambda>b. Fin (of_nat (unat b))),
      mul_e = fp_mul,
      zero_e = Fin 0,
      uninit_e = NaN\<rparr>"

fun fp_finite :: "fp \<Rightarrow> bool" where
  "fp_finite (Fin a) = True"
| "fp_finite (Inf s) = False"
| "fp_finite NaN = False"

section \<open>Properties\<close>

subsection \<open>What the two operators compute, for any arithmetic\<close>

lemmas tensor_defs =
  t_mul_s_def t_add_s_def t_sub_s_def t_floor_def clamp_min_def clamp_max_def t_ge_s_def
  t_le_s_def byte_mul_def type_as_def t_mul_def empty_like_def zeros_like_def copy_from_def

text \<open>
  With the checks passed and the delay over, the forward operator maps
  \<open>forward_formula\<close> over the elements: the eight tensor operators fuse into one pass.
\<close>

lemma forward_active:
  assumes "scalar_type X = Float" "quant_min \<le> quant_max" "0 \<le> zero_point" "0 \<le> quant_delay"
    and "quant_delay = 0 \<or> quant_delay < iter"
  shows "fake_quantize_per_tensor_affine_cpu ops X scale zero_point quant_min quant_max
           quant_delay iter
         = Inr (X\<lparr>data := map (forward_formula ops scale zero_point quant_min quant_max) (data X)\<rparr>)"
  using assms
  by (auto simp: fake_quantize_per_tensor_affine_cpu_def tensor_defs forward_formula_def
      pre_clamp_def Let_def)

text \<open>The product of two 0/1 bytes is the byte of the conjunction.\<close>

lemma mask_byte: "(of_bool a :: 8 word) * of_bool b = of_bool (a \<and> b)"
  by (cases a; cases b) simp_all

lemma masked_product:
  "map2 m (map c (map2 (*) (map (\<lambda>x. of_bool (p x) :: 8 word) xs) (map (\<lambda>x. of_bool (q x)) xs))) ys
     = map2 (\<lambda>x g. m (c (of_bool (p x \<and> q x))) g) xs ys"
proof (induction xs arbitrary: ys)
  case Nil
  then show ?case by simp
next
  case (Cons x xs)
  then show ?case by (cases ys) (simp_all add: mask_byte)
qed

lemma map2_map_left: "map2 f (map h xs) ys = map2 (\<lambda>x y. f (h x) y) xs ys"
proof (induction xs arbitrary: ys)
  case Nil
  then show ?case by simp
next
  case (Cons x xs)
  then show ?case by (cases ys) simp_all
qed

lemma masked_gradient:
  "data (t_mul ops (type_as ops (byte_mul (t_ge_s ops Xq a) (t_le_s ops Xq b)) dY) dY)
     = map2 (\<lambda>x g. mul_e ops (of_byte ops (of_bool (ge_s ops x a \<and> le_s ops x b))) g)
         (data Xq) (data dY)"
  by (simp only: tensor_defs Tensor.simps masked_product)

lemma pre_clamp_tensor:
  "data (t_add_s ops
           (t_floor ops
             (t_add_s ops (t_mul_s ops X (ScalarDouble (div_d ops (lit_one ops) scale)))
               (ScalarDouble (lit_half ops))))
           (ScalarLong zero_point))
     = map (pre_clamp ops scale zero_point) (data X)"
  by (simp add: tensor_defs pre_clamp_def)

text \<open>
  With the checks passed and the delay over, the backward operator maps
  \<open>product_formula\<close> over the pairs of elements of \<open>X\<close> and \<open>dY\<close>.
\<close>

lemma backward_active:
  assumes "quant_min \<le> quant_max" "0 \<le> zero_point" "0 \<le> quant_delay"
    and "data X \<noteq> []" "length (data X) = length (data dY)"
    and "quant_delay = 0 \<or> quant_delay < iter"
  shows "fake_quantize_per_tensor_affine_backward_cpu ops dY X scale zero_point quant_min
           quant_max quant_delay iter
         = Inr (dY\<lparr>data := map2 (product_formula ops scale zero_point quant_min quant_max)
                              (data X) (data dY)\<rparr>)"
proof -
  let ?Xq = "t_add_s ops
           (t_floor ops
             (t_add_s ops (t_mul_s ops X (ScalarDouble (div_d ops (lit_one ops) scale)))
               (ScalarDouble (lit_half ops))))
           (ScalarLong zero_point)"
  let ?dX = "t_mul ops (type_as ops (byte_mul (t_ge_s ops ?Xq (ScalarLong quant_min))
                 (t_le_s ops ?Xq (ScalarLong quant_max))) dY) dY"
  have pass: "\<not> numel X \<le> 0" "numel X = numel dY" "\<not> (quant_delay \<noteq> 0 \<and> iter < 0)"
    "\<not> (quant_delay > 0 \<and> iter \<le> quant_delay)"
    using assms by (auto simp: numel_def)
  have run: "fake_quantize_per_tensor_affine_backward_cpu ops dY X scale zero_point quant_min
      quant_max quant_delay iter = Inr ?dX"
    unfolding fake_quantize_per_tensor_affine_backward_cpu_def Let_def
    using assms(1-3) pass
    by (simp only: if_False not_less [symmetric] if_True simp_thms split: if_splits)
  have ty: "scalar_type ?dX = scalar_type dY"
    by (simp add: t_mul_def type_as_def)
  have "data ?dX
      = map2 (product_formula ops scale zero_point quant_min quant_max) (data X) (data dY)"
    unfolding masked_gradient pre_clamp_tensor
    by (simp add: map2_map_left product_formula_def in_range_def)
  with ty have "?dX = dY\<lparr>data := map2 (product_formula ops scale zero_point quant_min quant_max)
      (data X) (data dY)\<rparr>"
    by simp
  with run show ?thesis by simp
qed

text \<open>While the delay lasts, both operators return their tensor argument as it is.\<close>

lemma forward_suppressed:
  assumes "scalar_type X = Float" "quant_min \<le> quant_max" "0 \<le> zero_point"
    and "0 < quant_delay" "0 \<le> iter" "iter \<le> quant_delay"
  shows "fake_quantize_per_tensor_affine_cpu ops X scale zero_point quant_min quant_max
           quant_delay iter = Inr X"
  using assms by (simp add: fake_quantize_per_tensor_affine_cpu_def tensor_defs)

lemma backward_suppressed:
  assumes "quant_min \<le> quant_max" "0 \<le> zero_point"
    and "data X \<noteq> []" "length (data X) = length (data dY)"
    and "0 < quant_delay" "0 \<le> iter" "iter \<le> quant_delay"
  shows "fake_quantize_per_tensor_affine_backward_cpu ops dY X scale zero_point quant_min
           quant_max quant_delay iter = Inr dY"
  using assms
  by (auto simp: fake_quantize_per_tensor_affine_backward_cpu_def tensor_defs numel_def)

text \<open>The error of either operator is that of the first violated check, in source order.\<close>

lemma forward_error:
  "error_of (fake_quantize_per_tensor_affine_cpu ops self scale zero_point quant_min quant_max
       quant_delay iter)
     = first_violated (forward_checks self zero_point quant_min quant_max quant_delay iter)"
  by (simp add: fake_quantize_per_tensor_affine_cpu_def error_of_def first_violated_def
      forward_checks_def Let_def)

lemma backward_error:
  "error_of (fake_quantize_per_tensor_affine_backward_cpu ops dY X scale zero_point quant_min
       quant_max quant_delay iter)
     = first_violated (backward_checks dY X zero_point quant_min quant_max quant_delay iter)"
  by (simp add: fake_quantize_per_tensor_affine_backward_cpu_def error_of_def
      first_violated_def backward_checks_def Let_def)

subsection \<open>The forward formula applied twice\<close>



subsection \<open>Products with 0 and 1 in the IEEE instance\<close>

lemma fp_mul_one: "fp_mul (Fin 1) g = g"
  by (cases g) simp_all

lemma fp_mul_zero_finite: "fp_finite g \<Longrightarrow> fp_mul (Fin 0) g = Fin 0"
  by (cases g) simp_all

lemma fp_mul_zero_not_finite: "\<not> fp_finite g \<Longrightarrow> fp_mul (Fin 0) g = NaN"
  by (cases g) simp_all

section \<open>The claims\<close>

subsection \<open>Forward formula\<close>

text \<open>
  C1. For a float tensor \<open>X\<close> and parameters that pass the checks
  (\<open>quant_min \<le> quant_max\<close>, \<open>0 \<le> zero_point\<close>, \<open>0 \<le> quant_delay\<close>, and
  \<open>0 \<le> iter\<close> when \<open>quant_delay \<noteq> 0\<close>), when the delay is over
  (\<open>quant_delay = 0\<close> or \<open>quant_delay < iter\<close>) the forward operator returns a tensor
  \<open>Y\<close> of the same length with
  \<open>Y[i] = (clamp(floor(X[i] * (1/scale) + 0.5) + zero_point, quant_min, quant_max)
  - zero_point) * scale\<close> at every index: rounding is \<open>floor(x + 0.5)\<close>, and the
  clamp is applied to the shifted value, before \<open>zero_point\<close> is subtracted again.
  The arithmetic is the tensor library's, whatever it is.
\<close>

theorem forward_active_formula:
  assumes "scalar_type X = Float"
    and "quant_min \<le> quant_max" and "0 \<le> zero_point" and "0 \<le> quant_delay"
    and "quant_delay \<noteq> 0 \<longrightarrow> 0 \<le> iter"
    and "quant_delay = 0 \<or> quant_delay < iter"
  shows "\<exists>Y. fake_quantize_per_tensor_affine_cpu ops X scale zero_point quant_min quant_max
               quant_delay iter = Inr Y
           \<and> length (data Y) = length (data X)
           \<and> (\<forall>i < length (data X).
                data Y ! i = forward_formula ops scale zero_point quant_min quant_max (data X ! i))"
proof -
  let ?Y = "X\<lparr>data := map (forward_formula ops scale zero_point quant_min quant_max) (data X)\<rparr>"
  have "fake_quantize_per_tensor_affine_cpu ops X scale zero_point quant_min quant_max
          quant_delay iter = Inr ?Y"
    by (rule forward_active [OF assms(1-4) assms(6)])
  moreover have "length (data ?Y) = length (data X)"
    by simp
  moreover have "\<forall>i < length (data X).
      data ?Y ! i = forward_formula ops scale zero_point quant_min quant_max (data X ! i)"
    by simp
  ultimately show ?thesis by blast
qed

theorem forward_active_formula_witness:
  "\<exists>Y. fake_quantize_per_tensor_affine_cpu ieee_ops
          \<lparr>scalar_type = Float, data = [Fin (1 / 5), Fin 300]\<rparr> (Fin 1) 0 0 255 2 3 = Inr Y
      \<and> length (data Y) = length [Fin (1 / 5), Fin 300]
      \<and> data Y ! 0 = forward_formula ieee_ops (Fin 1) 0 0 255 (Fin (1 / 5))
      \<and> data Y ! 1 = forward_formula ieee_ops (Fin 1) 0 0 255 (Fin 300)"
proof -
  obtain Y where Y: "fake_quantize_per_tensor_affine_cpu ieee_ops
          \<lparr>scalar_type = Float, data = [Fin (1 / 5), Fin 300]\<rparr> (Fin 1) 0 0 255 2 3 = Inr Y"
     "length (data Y) = length [Fin (1 / 5), Fin 300]"
     "\<forall>i < length [Fin (1 / 5), Fin 300]. data Y ! i = forward_formula ieee_ops (Fin 1) 0 0 255 ([Fin (1 / 5), Fin 300] ! i)"
    using forward_active_formula [of "\<lparr>scalar_type = Float, data = [Fin (1 / 5), Fin 300]\<rparr>" 0 255 0 2 3 ieee_ops "Fin 1"]
    by auto
  from Y(3) have "data Y ! 0 = forward_formula ieee_ops (Fin 1) 0 0 255 (Fin (1 / 5))"
    "data Y ! 1 = forward_formula ieee_ops (Fin 1) 0 0 255 (Fin 300)"
    by auto
  with Y(1,2) show ?thesis by blast
qed

subsection \<open>Backward mask\<close>

text \<open>
  C2, as amended. For tensors \<open>X\<close> (not empty) and \<open>dY\<close> of equal length and
  parameters that pass the checks, when the delay is over the backward operator returns
  a tensor \<open>dX\<close> of the same length with \<open>dX[i] = mask[i] * dY[i]\<close> at every index,
  where \<open>mask[i]\<close> is 1, converted to the element type of \<open>dY\<close>, if
  \<open>quant_min \<le> Xq[i] \<le> quant_max\<close> (both bounds included) and 0 if not, and
  \<open>Xq[i] = floor(X[i] * (1/scale) + 0.5) + zero_point\<close> is the value before clamping.
  Hence, in an arithmetic where \<open>1 * g = g\<close> for every \<open>g\<close>, \<open>dX[i] = dY[i]\<close>
  wherever \<open>Xq[i]\<close> is in the range; and in an arithmetic where \<open>0 * g = 0\<close> for every
  finite \<open>g\<close>, \<open>dX[i] = 0\<close> wherever \<open>Xq[i]\<close> is outside the range and \<open>dY[i]\<close> is
  finite. Comparisons, rounding and products are the tensor library's; \<open>finite_e\<close> is
  any set of elements on which the product with 0 is 0.
\<close>

theorem backward_active_product:
  fixes finite_e :: "'e \<Rightarrow> bool"
  assumes "quant_min \<le> quant_max" and "0 \<le> zero_point" and "0 \<le> quant_delay"
    and "data X \<noteq> []" and "length (data X) = length (data dY)"
    and "quant_delay \<noteq> 0 \<longrightarrow> 0 \<le> iter"
    and "quant_delay = 0 \<or> quant_delay < iter"
  shows "\<exists>dX. fake_quantize_per_tensor_affine_backward_cpu ops dY X scale zero_point quant_min
                quant_max quant_delay iter = Inr dX
           \<and> length (data dX) = length (data dY)
           \<and> (\<forall>i < length (data dY).
                data dX ! i
                  = product_formula ops scale zero_point quant_min quant_max (data X ! i) (data dY ! i))
           \<and> ((\<forall>g. mul_e ops (of_byte ops 1) g = g) \<longrightarrow>
                (\<forall>i < length (data dY).
                   in_range ops scale zero_point quant_min quant_max (data X ! i) \<longrightarrow>
                   data dX ! i = data dY ! i))
           \<and> ((\<forall>g. finite_e g \<longrightarrow> mul_e ops (of_byte ops 0) g = zero_e ops) \<longrightarrow>
                (\<forall>i < length (data dY).
                   \<not> in_range ops scale zero_point quant_min quant_max (data X ! i)
                     \<and> finite_e (data dY ! i) \<longrightarrow>
                   data dX ! i = zero_e ops))"
proof -
  let ?dX = "dY\<lparr>data := map2 (product_formula ops scale zero_point quant_min quant_max)
                        (data X) (data dY)\<rparr>"
  have run: "fake_quantize_per_tensor_affine_backward_cpu ops dY X scale zero_point quant_min
          quant_max quant_delay iter = Inr ?dX"
    by (rule backward_active [OF assms(1-5) assms(7)])
  have len: "length (data ?dX) = length (data dY)"
    using assms(5) by simp
  have prod: "\<forall>i < length (data dY).
      data ?dX ! i
        = product_formula ops scale zero_point quant_min quant_max (data X ! i) (data dY ! i)"
    using assms(5) by simp
  have inside: "(\<forall>g. mul_e ops (of_byte ops 1) g = g) \<longrightarrow>
      (\<forall>i < length (data dY).
         in_range ops scale zero_point quant_min quant_max (data X ! i) \<longrightarrow>
         data ?dX ! i = data dY ! i)"
    using prod by (simp add: product_formula_def)
  have outside: "(\<forall>g. finite_e g \<longrightarrow> mul_e ops (of_byte ops 0) g = zero_e ops) \<longrightarrow>
      (\<forall>i < length (data dY).
         \<not> in_range ops scale zero_point quant_min quant_max (data X ! i)
           \<and> finite_e (data dY ! i) \<longrightarrow>
         data ?dX ! i = zero_e ops)"
    using prod by (simp add: product_formula_def)
  from run len prod inside outside show ?thesis
    by blast
qed

theorem backward_active_product_witness:
  "\<exists>dX. fake_quantize_per_tensor_affine_backward_cpu ieee_ops
          \<lparr>scalar_type = Float, data = [Fin 7, Fin 9, NInf]\<rparr>
          \<lparr>scalar_type = Float, data = [Fin (1 / 5), Fin 300, Fin 255]\<rparr> (Fin 1) 0 0 255 2 3
        = Inr dX
      \<and> length (data dX) = 3
      \<and> data dX ! 0 = Fin 7 \<and> data dX ! 1 = Fin 0 \<and> data dX ! 2 = NInf"
proof -
  let ?dY = "\<lparr>scalar_type = Float, data = [Fin 7, Fin 9, NInf]\<rparr>"
  let ?X = "\<lparr>scalar_type = Float, data = [Fin (1 / 5), Fin 300, Fin 255]\<rparr>"
  have one: "\<forall>g. mul_e ieee_ops (of_byte ieee_ops 1) g = g"
    by (simp add: ieee_ops_def fp_mul_one)
  have zero: "\<forall>g. fp_finite g \<longrightarrow> mul_e ieee_ops (of_byte ieee_ops 0) g = zero_e ieee_ops"
    by (simp add: ieee_ops_def fp_mul_zero_finite)
  have r: "in_range ieee_ops (Fin 1) 0 0 255 (Fin (1 / 5))"
    "\<not> in_range ieee_ops (Fin 1) 0 0 255 (Fin 300)"
    "in_range ieee_ops (Fin 1) 0 0 255 (Fin 255)"
    by code_simp+
  obtain dX where dX:
    "fake_quantize_per_tensor_affine_backward_cpu ieee_ops ?dY ?X (Fin 1) 0 0 255 2 3 = Inr dX"
    "length (data dX) = length (data ?dY)"
    "\<forall>i < length (data ?dY). in_range ieee_ops (Fin 1) 0 0 255 (data ?X ! i) \<longrightarrow>
        data dX ! i = data ?dY ! i"
    "\<forall>i < length (data ?dY). \<not> in_range ieee_ops (Fin 1) 0 0 255 (data ?X ! i)
        \<and> fp_finite (data ?dY ! i) \<longrightarrow> data dX ! i = zero_e ieee_ops"
    using backward_active_product [where ops = ieee_ops and dY = ?dY and X = ?X
        and scale = "Fin 1" and zero_point = 0 and quant_min = 0 and quant_max = 255
        and quant_delay = 2 and iter = 3 and finite_e = fp_finite] one zero
    by auto
  have "data dX ! 0 = Fin 7"
    using dX(3) [rule_format, of 0] r(1) by simp
  moreover have "data dX ! 1 = Fin 0"
    using dX(4) [rule_format, of 1] r(2) by (simp add: ieee_ops_def)
  moreover have "data dX ! 2 = NInf"
    using dX(3) [rule_format, of 2] r(3) by simp
  ultimately show ?thesis
    using dX(1,2) by auto
qed

text \<open>
  C2 as stated (\<open>dX[i] = 0\<close> wherever the mask is 0) fails for a gradient that is not
  finite: with \<open>X = [300]\<close>, \<open>dY = [+inf]\<close>, \<open>scale = 1\<close>, \<open>zero_point = 0\<close> and
  the range \<open>[0, 255]\<close>, the value before clamping is 300, the mask is 0 and the
  operator returns \<open>0 * inf = NaN\<close>, where the selection gives 0.
\<close>

theorem backward_selection_counterexample:
  "fake_quantize_per_tensor_affine_backward_cpu ieee_ops
      \<lparr>scalar_type = Float, data = [PInf]\<rparr> \<lparr>scalar_type = Float, data = [Fin 300]\<rparr>
      (Fin 1) 0 0 255 0 0
     = Inr \<lparr>scalar_type = Float, data = [NaN]\<rparr>
   \<and> select_formula ieee_ops (Fin 1) 0 0 255 (Fin 300) PInf = Fin 0"
  by code_simp

subsection \<open>Delay\<close>

text \<open>
  C3. For every \<open>quant_delay > 0\<close> and every \<open>iter\<close> with
  \<open>0 \<le> iter \<le> quant_delay\<close> (\<open>iter = quant_delay\<close> included), with the other
  checks passed, the forward operator returns \<open>X\<close> itself and the backward operator
  returns \<open>dY\<close> itself, for every \<open>scale\<close> and every arithmetic: neither is used
  on this path.
\<close>

theorem delay_pass_through:
  assumes "0 < quant_delay" and "0 \<le> iter" and "iter \<le> quant_delay"
    and "quant_min \<le> quant_max" and "0 \<le> zero_point"
  shows "(scalar_type X = Float \<longrightarrow>
            fake_quantize_per_tensor_affine_cpu ops X scale zero_point quant_min quant_max
              quant_delay iter = Inr X)
       \<and> (data X \<noteq> [] \<and> length (data X) = length (data dY) \<longrightarrow>
            fake_quantize_per_tensor_affine_backward_cpu ops dY X scale zero_point quant_min
              quant_max quant_delay iter = Inr dY)"
  using assms by (simp add: forward_suppressed backward_suppressed)

theorem delay_pass_through_witness:
  "fake_quantize_per_tensor_affine_cpu ieee_ops
      \<lparr>scalar_type = Float, data = [Fin (1 / 5), Fin 300]\<rparr> NaN 7 0 255 3 3
     = Inr \<lparr>scalar_type = Float, data = [Fin (1 / 5), Fin 300]\<rparr>
   \<and> fake_quantize_per_tensor_affine_backward_cpu ieee_ops
      \<lparr>scalar_type = Float, data = [Fin 7, PInf]\<rparr>
      \<lparr>scalar_type = Float, data = [Fin (1 / 5), Fin 300]\<rparr> NaN 7 0 255 3 3
     = Inr \<lparr>scalar_type = Float, data = [Fin 7, PInf]\<rparr>"
  using delay_pass_through [of 3 3 0 255 7
      "\<lparr>scalar_type = Float, data = [Fin (1 / 5), Fin 300]\<rparr>" ieee_ops NaN
      "\<lparr>scalar_type = Float, data = [Fin 7, PInf]\<rparr>"]
  by simp

subsection \<open>Validation\<close>

text \<open>
  C4, as amended. Whatever the tensors hold and whatever the arithmetic, the forward
  operator (on a float tensor) and the backward operator fail, with no tensor returned,
  \<^item> with \<open>InvalidRange\<close> whenever \<open>quant_min > quant_max\<close>;
  \<^item> with \<open>InvalidZeroPoint\<close> whenever \<open>zero_point < 0\<close> and the check before passes;
  \<^item> with \<open>InvalidDelay\<close> whenever \<open>quant_delay < 0\<close> and the checks before pass;
  \<^item> with \<open>InvalidIteration\<close> whenever \<open>quant_delay \<noteq> 0\<close> and \<open>iter < 0\<close> and the
    checks before pass, which for the backward operator include that \<open>X\<close> is not
    empty and has as many elements as \<open>dY\<close>.
\<close>

theorem validation_failures:
  "(quant_max < quant_min \<longrightarrow>
      (scalar_type self = Float \<longrightarrow>
         fake_quantize_per_tensor_affine_cpu ops self scale zero_point quant_min quant_max
           quant_delay iter = Inl InvalidRange)
      \<and> fake_quantize_per_tensor_affine_backward_cpu ops dY X scale zero_point quant_min
           quant_max quant_delay iter = Inl InvalidRange)
   \<and> (quant_min \<le> quant_max \<and> zero_point < 0 \<longrightarrow>
      (scalar_type self = Float \<longrightarrow>
         fake_quantize_per_tensor_affine_cpu ops self scale zero_point quant_min quant_max
           quant_delay iter = Inl InvalidZeroPoint)
      \<and> fake_quantize_per_tensor_affine_backward_cpu ops dY X scale zero_point quant_min
           quant_max quant_delay iter = Inl InvalidZeroPoint)
   \<and> (quant_min \<le> quant_max \<and> 0 \<le> zero_point \<and> quant_delay < 0 \<longrightarrow>
      (scalar_type self = Float \<longrightarrow>
         fake_quantize_per_tensor_affine_cpu ops self scale zero_point quant_min quant_max
           quant_delay iter = Inl InvalidDelay)
      \<and> fake_quantize_per_tensor_affine_backward_cpu ops dY X scale zero_point quant_min
           quant_max quant_delay iter = Inl InvalidDelay)
   \<and> (quant_min \<le> quant_max \<and> 0 \<le> zero_point \<and> 0 \<le> quant_delay
        \<and> quant_delay \<noteq> 0 \<and> iter < 0 \<longrightarrow>
      (scalar_type self = Float \<longrightarrow>
         fake_quantize_per_tensor_affine_cpu ops self scale zero_point quant_min quant_max
           quant_delay iter = Inl InvalidIteration)
      \<and> (data X \<noteq> [] \<and> length (data X) = length (data dY) \<longrightarrow>
         fake_quantize_per_tensor_affine_backward_cpu ops dY X scale zero_point quant_min
           quant_max quant_delay iter = Inl InvalidIteration))"
  by (simp add: fake_quantize_per_tensor_affine_cpu_def
      fake_quantize_per_tensor_affine_backward_cpu_def numel_def)

theorem validation_failures_witness:
  "fake_quantize_per_tensor_affine_cpu ieee_ops \<lparr>scalar_type = Float, data = [Fin 1]\<rparr>
      (Fin 1) 0 1 0 0 0 = Inl InvalidRange
   \<and> fake_quantize_per_tensor_affine_backward_cpu ieee_ops
      \<lparr>scalar_type = Float, data = [Fin 1]\<rparr> \<lparr>scalar_type = Float, data = [Fin 1]\<rparr>
      (Fin 1) 0 1 0 0 0 = Inl InvalidRange
   \<and> fake_quantize_per_tensor_affine_cpu ieee_ops \<lparr>scalar_type = Float, data = [Fin 1]\<rparr>
      (Fin 1) (- 1) 0 255 0 0 = Inl InvalidZeroPoint
   \<and> fake_quantize_per_tensor_affine_backward_cpu ieee_ops
      \<lparr>scalar_type = Float, data = [Fin 1]\<rparr> \<lparr>scalar_type = Float, data = [Fin 1]\<rparr>
      (Fin 1) (- 1) 0 255 0 0 = Inl InvalidZeroPoint
   \<and> fake_quantize_per_tensor_affine_cpu ieee_ops \<lparr>scalar_type = Float, data = [Fin 1]\<rparr>
      (Fin 1) 0 0 255 (- 1) 0 = Inl InvalidDelay
   \<and> fake_quantize_per_tensor_affine_backward_cpu ieee_ops
      \<lparr>scalar_type = Float, data = [Fin 1]\<rparr> \<lparr>scalar_type = Float, data = [Fin 1]\<rparr>
      (Fin 1) 0 0 255 (- 1) 0 = Inl InvalidDelay
   \<and> fake_quantize_per_tensor_affine_cpu ieee_ops \<lparr>scalar_type = Float, data = [Fin 1]\<rparr>
      (Fin 1) 0 0 255 2 (- 1) = Inl InvalidIteration
   \<and> fake_quantize_per_tensor_affine_backward_cpu ieee_ops
      \<lparr>scalar_type = Float, data = [Fin 1]\<rparr> \<lparr>scalar_type = Float, data = [Fin 1]\<rparr>
      (Fin 1) 0 0 255 2 (- 1) = Inl InvalidIteration"
proof -
  let ?t = "\<lparr>scalar_type = Float, data = [Fin 1]\<rparr>"
  note v = validation_failures [where ops = ieee_ops and self = ?t and dY = ?t and X = ?t
      and scale = "Fin 1"]
  show ?thesis
    using
      v [where quant_min = 1 and quant_max = 0 and zero_point = 0 and quant_delay = 0 and iter = 0]
      v [where quant_min = 0 and quant_max = 255 and zero_point = "- 1" and quant_delay = 0
        and iter = 0]
      v [where quant_min = 0 and quant_max = 255 and zero_point = 0 and quant_delay = "- 1"
        and iter = 0]
      v [where quant_min = 0 and quant_max = 255 and zero_point = 0 and quant_delay = 2
        and iter = "- 1"]
    by simp
qed

text \<open>
  C4 as stated (the backward operator fails with \<open>InvalidIteration\<close> whenever
  \<open>quant_delay \<noteq> 0\<close> and \<open>iter < 0\<close>, for every input) fails where \<open>X\<close> and \<open>dY\<close>
  differ in length: the size check comes first.
\<close>

theorem backward_iteration_counterexample:
  "(1 :: int) \<noteq> 0 \<and> (- 1 :: int) < 0
   \<and> fake_quantize_per_tensor_affine_backward_cpu ieee_ops
        \<lparr>scalar_type = Float, data = [Fin 1, Fin 2]\<rparr> \<lparr>scalar_type = Float, data = [Fin 1]\<rparr>
        (Fin 1) 0 0 255 1 (- 1) = Inl SizeMismatch
   \<and> Inl SizeMismatch \<noteq> (Inl InvalidIteration :: error + fp Tensor)"
  by (simp add: fake_quantize_per_tensor_affine_backward_cpu_def numel_def)

text \<open>
  C5, as amended. The checks run in the order of the source, and the error reported is
  that of the first violated check in that order: for the forward operator the element
  type, \<open>InvalidRange\<close>, \<open>InvalidZeroPoint\<close>, \<open>InvalidDelay\<close>, \<open>InvalidIteration\<close>;
  for the backward operator \<open>InvalidRange\<close>, \<open>InvalidZeroPoint\<close>, \<open>InvalidDelay\<close>,
  \<open>EmptyInput\<close>, \<open>SizeMismatch\<close>, \<open>InvalidIteration\<close>.
\<close>

theorem check_order:
  "error_of (fake_quantize_per_tensor_affine_cpu ops self scale zero_point quant_min quant_max
       quant_delay iter)
     = first_violated (forward_checks self zero_point quant_min quant_max quant_delay iter)
   \<and> error_of (fake_quantize_per_tensor_affine_backward_cpu ops dY X scale zero_point quant_min
       quant_max quant_delay iter)
     = first_violated (backward_checks dY X zero_point quant_min quant_max quant_delay iter)"
  by (simp only: forward_error backward_error)

text \<open>
  C5 as stated puts \<open>InvalidIteration\<close> before \<open>EmptyInput\<close>: for
  \<open>quant_delay = 1\<close>, \<open>iter = -1\<close> and an empty \<open>X\<close> it names \<open>InvalidIteration\<close>,
  and the backward operator reports \<open>EmptyInput\<close>.
\<close>

theorem check_order_counterexample:
  "first_violated (backward_checks_spec
        \<lparr>scalar_type = Float, data = []\<rparr> (\<lparr>scalar_type = Float, data = []\<rparr> :: fp Tensor)
        0 0 255 1 (- 1))
     = Some InvalidIteration
   \<and> fake_quantize_per_tensor_affine_backward_cpu ieee_ops
        \<lparr>scalar_type = Float, data = []\<rparr> \<lparr>scalar_type = Float, data = []\<rparr>
        (Fin 1) 0 0 255 1 (- 1) = Inl EmptyInput"
  by (simp add: fake_quantize_per_tensor_affine_backward_cpu_def numel_def first_violated_def
      backward_checks_spec_def)

subsection \<open>The scenario of the specification\<close>

text \<open>
  C6. With \<open>scale = 1\<close>, \<open>zero_point = 0\<close>, the range \<open>[0, 255]\<close>,
  \<open>quant_delay = 0\<close> and \<open>iter = 0\<close>: the forward operator takes
  \<open>X = [0.2, 0.6, -0.4, 300]\<close> to \<open>[0, 1, 0, 255]\<close>; the values before clamping are
  \<open>[0, 1, 0, 300]\<close> and the mask is \<open>[true, true, true, false]\<close>; the backward
  operator takes \<open>dY = [1, 1, 1, 1]\<close> to \<open>[1, 1, 1, 0]\<close>. Evaluated in the IEEE
  instance.
\<close>

theorem concrete_scenario:
  "fake_quantize_per_tensor_affine_cpu ieee_ops
      \<lparr>scalar_type = Float, data = [Fin (2 / 10), Fin (6 / 10), Fin (- (4 / 10)), Fin 300]\<rparr>
      (Fin 1) 0 0 255 0 0
     = Inr \<lparr>scalar_type = Float, data = [Fin 0, Fin 1, Fin 0, Fin 255]\<rparr>
   \<and> map (pre_clamp ieee_ops (Fin 1) 0)
        [Fin (2 / 10), Fin (6 / 10), Fin (- (4 / 10)), Fin 300]
     = [Fin 0, Fin 1, Fin 0, Fin 300]
   \<and> map (in_range ieee_ops (Fin 1) 0 0 255)
        [Fin (2 / 10), Fin (6 / 10), Fin (- (4 / 10)), Fin 300]
     = [True, True, True, False]
   \<and> fake_quantize_per_tensor_affine_backward_cpu ieee_ops
      \<lparr>scalar_type = Float, data = [Fin 1, Fin 1, Fin 1, Fin 1]\<rparr>
      \<lparr>scalar_type = Float, data = [Fin (2 / 10), Fin (6 / 10), Fin (- (4 / 10)), Fin 300]\<rparr>
      (Fin 1) 0 0 255 0 0
     = Inr \<lparr>scalar_type = Float, data = [Fin 1, Fin 1, Fin 1, Fin 0]\<rparr>"
  by code_simp

subsection \<open>Idempotence\<close>




subsection \<open>Element types\<close>

text \<open>
  C8. The length of the result is that of the input, but the element type is not the
  wider one: while the delay lasts, the result of the forward operator on a
  float tensor is a float tensor, made by \<^verbatim>\<open>empty_like(self)\<close>, not a double one.
\<close>

theorem forward_returns_float:
  "fake_quantize_per_tensor_affine_cpu ops \<lparr>scalar_type = Float, data = [x]\<rparr> scale 0 0 255 1 0
     = Inr \<lparr>scalar_type = Float, data = [x]\<rparr>
   \<and> Float \<noteq> Double"
  by (simp add: fake_quantize_per_tensor_affine_cpu_def tensor_defs)

text \<open>
  C9. The forward operator rejects a tensor whose element type is not \<open>Float\<close>,
  whatever the parameters are, so before any of their checks. The backward operator
  has no such check: its error does not depend on the element types of \<open>dY\<close> and
  \<open>X\<close>, and is never that of the element type check.
\<close>

theorem dtype_check:
  "(scalar_type self \<noteq> Float \<longrightarrow>
      fake_quantize_per_tensor_affine_cpu ops self scale zero_point quant_min quant_max
        quant_delay iter = Inl TorchCheckFailed)
   \<and> error_of (fake_quantize_per_tensor_affine_backward_cpu ops
        (dY\<lparr>scalar_type := t1\<rparr>) (X\<lparr>scalar_type := t2\<rparr>) scale zero_point quant_min
        quant_max quant_delay iter)
     = error_of (fake_quantize_per_tensor_affine_backward_cpu ops dY X scale zero_point
        quant_min quant_max quant_delay iter)
   \<and> error_of (fake_quantize_per_tensor_affine_backward_cpu ops dY X scale zero_point
        quant_min quant_max quant_delay iter) \<noteq> Some TorchCheckFailed"
  by (simp add: fake_quantize_per_tensor_affine_cpu_def backward_error first_violated_def
      backward_checks_def numel_def)

theorem dtype_check_witness:
  "fake_quantize_per_tensor_affine_cpu ieee_ops \<lparr>scalar_type = Double, data = [Fin 1]\<rparr>
      (Fin 1) (- 1) 1 0 (- 1) (- 1) = Inl TorchCheckFailed
   \<and> error_of (fake_quantize_per_tensor_affine_backward_cpu ieee_ops
        \<lparr>scalar_type = Double, data = [Fin 1]\<rparr> \<lparr>scalar_type = Long, data = [Fin 300]\<rparr>
        (Fin 1) 0 0 255 0 0) = None"
proof -
  let ?dY = "\<lparr>scalar_type = Float, data = [Fin 1]\<rparr>"
  let ?X = "\<lparr>scalar_type = Float, data = [Fin 300]\<rparr>"
  have "error_of (fake_quantize_per_tensor_affine_backward_cpu ieee_ops ?dY ?X
        (Fin 1) 0 0 255 0 0) = None"
    by (simp add: backward_error first_violated_def backward_checks_def numel_def)
  then show ?thesis
    using
      dtype_check [where self = "\<lparr>scalar_type = Double, data = [Fin 1]\<rparr>" and ops = ieee_ops
        and scale = "Fin 1" and zero_point = "- 1" and quant_min = 1 and quant_max = 0
        and quant_delay = "- 1" and iter = "- 1"]
      dtype_check [where ops = ieee_ops and dY = ?dY and X = ?X and ?t1.0 = Double and ?t2.0 = Long
        and scale = "Fin 1" and zero_point = 0 and quant_min = 0 and quant_max = 255
        and quant_delay = 0 and iter = 0]
    by simp
qed

subsection \<open>Gradients that are not finite\<close>

text \<open>
  C10. On the active path of the backward operator every element of \<open>dX\<close> is the
  product \<open>mask[i] * dY[i]\<close> of the 0/1 mask with the element of \<open>dY\<close>, not a
  selection. With the IEEE 754 product (the mask values 0 and 1 converted exactly, and
  \<open>fp_mul\<close> for the product; comparisons and rounding are the tensor library's,
  whatever they are): where the mask is 1, \<open>dX[i] = dY[i]\<close>; where the mask is 0,
  \<open>dX[i]\<close> is exactly 0 when \<open>dY[i]\<close> is finite and NaN when \<open>dY[i]\<close> is infinite
  or NaN, while the selection \<open>mask[i] ? dY[i] : 0\<close> gives 0. A product with 0 or 1
  is never rounded, so that \<open>fp_mul\<close> is exact on finite values loses nothing here.
\<close>

theorem masked_out_gradient:
  fixes ops :: "(fp, 'd) arith"
  assumes "quant_min \<le> quant_max" and "0 \<le> zero_point" and "0 \<le> quant_delay"
    and "data X \<noteq> []" and "length (data X) = length (data dY)"
    and "quant_delay \<noteq> 0 \<longrightarrow> 0 \<le> iter"
    and "quant_delay = 0 \<or> quant_delay < iter"
    and "mul_e ops = fp_mul" and "of_byte ops 0 = Fin 0" and "of_byte ops 1 = Fin 1"
    and "zero_e ops = Fin 0"
  shows "\<exists>dX. fake_quantize_per_tensor_affine_backward_cpu ops dY X scale zero_point
                quant_min quant_max quant_delay iter = Inr dX
           \<and> (\<forall>i < length (data dY).
                data dX ! i
                  = fp_mul (if in_range ops scale zero_point quant_min quant_max (data X ! i)
                            then Fin 1 else Fin 0) (data dY ! i))
           \<and> (\<forall>i < length (data dY).
                in_range ops scale zero_point quant_min quant_max (data X ! i) \<longrightarrow>
                data dX ! i = data dY ! i)
           \<and> (\<forall>i < length (data dY).
                \<not> in_range ops scale zero_point quant_min quant_max (data X ! i) \<longrightarrow>
                select_formula ops scale zero_point quant_min quant_max (data X ! i)
                    (data dY ! i) = Fin 0
                \<and> (fp_finite (data dY ! i) \<longrightarrow> data dX ! i = Fin 0)
                \<and> (\<not> fp_finite (data dY ! i) \<longrightarrow> data dX ! i = NaN))"
proof -
  let ?inr = "in_range ops scale zero_point quant_min quant_max"
  let ?dX = "dY\<lparr>data := map2 (product_formula ops scale zero_point quant_min quant_max)
                        (data X) (data dY)\<rparr>"
  have run: "fake_quantize_per_tensor_affine_backward_cpu ops dY X scale zero_point
      quant_min quant_max quant_delay iter = Inr ?dX"
    by (rule backward_active [OF assms(1-5) assms(7)])
  have pf: "product_formula ops scale zero_point quant_min quant_max x g
      = fp_mul (if ?inr x then Fin 1 else Fin 0) g" for x g
    using assms(8-10) by (simp add: product_formula_def)
  have prod: "\<forall>i < length (data dY).
      data ?dX ! i = fp_mul (if ?inr (data X ! i) then Fin 1 else Fin 0) (data dY ! i)"
    using assms(5) by (simp add: pf)
  have inside: "\<forall>i < length (data dY). ?inr (data X ! i) \<longrightarrow> data ?dX ! i = data dY ! i"
    using prod by (simp add: fp_mul_one)
  have outside: "\<forall>i < length (data dY). \<not> ?inr (data X ! i) \<longrightarrow>
      select_formula ops scale zero_point quant_min quant_max (data X ! i) (data dY ! i) = Fin 0
      \<and> (fp_finite (data dY ! i) \<longrightarrow> data ?dX ! i = Fin 0)
      \<and> (\<not> fp_finite (data dY ! i) \<longrightarrow> data ?dX ! i = NaN)"
    using prod assms(11)
    by (simp add: select_formula_def fp_mul_zero_finite fp_mul_zero_not_finite)
  from run prod inside outside show ?thesis
    by blast
qed

theorem masked_out_gradient_witness:
  "\<exists>dX. fake_quantize_per_tensor_affine_backward_cpu ieee_ops
          \<lparr>scalar_type = Float, data = [Fin 5, NInf, NaN, PInf]\<rparr>
          \<lparr>scalar_type = Float, data = [Fin 300, Fin 300, Fin (- 7), Fin 4]\<rparr>
          (Fin 1) 0 0 255 0 0 = Inr dX
      \<and> data dX ! 0 = Fin 0 \<and> data dX ! 1 = NaN \<and> data dX ! 2 = NaN \<and> data dX ! 3 = PInf"
proof -
  let ?dY = "\<lparr>scalar_type = Float, data = [Fin 5, NInf, NaN, PInf]\<rparr>"
  let ?X = "\<lparr>scalar_type = Float, data = [Fin 300, Fin 300, Fin (- 7), Fin 4]\<rparr>"
  have r: "\<not> in_range ieee_ops (Fin 1) 0 0 255 (Fin 300)"
    "\<not> in_range ieee_ops (Fin 1) 0 0 255 (Fin (- 7))"
    "in_range ieee_ops (Fin 1) 0 0 255 (Fin 4)"
    by code_simp+
  have ops: "mul_e ieee_ops = fp_mul" "of_byte ieee_ops 0 = Fin 0" "of_byte ieee_ops 1 = Fin 1"
    "zero_e ieee_ops = Fin 0"
    by (simp_all add: ieee_ops_def)
  obtain dX where dX:
    "fake_quantize_per_tensor_affine_backward_cpu ieee_ops ?dY ?X (Fin 1) 0 0 255 0 0 = Inr dX"
    "\<forall>i < length (data ?dY). in_range ieee_ops (Fin 1) 0 0 255 (data ?X ! i) \<longrightarrow>
        data dX ! i = data ?dY ! i"
    "\<forall>i < length (data ?dY). \<not> in_range ieee_ops (Fin 1) 0 0 255 (data ?X ! i) \<longrightarrow>
        (fp_finite (data ?dY ! i) \<longrightarrow> data dX ! i = Fin 0)
        \<and> (\<not> fp_finite (data ?dY ! i) \<longrightarrow> data dX ! i = NaN)"
    using masked_out_gradient [where ops = ieee_ops and dY = ?dY and X = ?X
        and scale = "Fin 1" and zero_point = 0 and quant_min = 0 and quant_max = 255
        and quant_delay = 0 and iter = 0] ops
    by auto
  have "data dX ! 0 = Fin 0"
    using dX(3) [rule_format, of 0] r(1) by simp
  moreover have "data dX ! 1 = NaN"
    using dX(3) [rule_format, of 1] r(1) by simp
  moreover have "data dX ! 2 = NaN"
    using dX(3) [rule_format, of 2] r(2) by simp
  moreover have "data dX ! 3 = PInf"
    using dX(2) [rule_format, of 3] r(3) by simp
  ultimately show ?thesis
    using dX(1) by auto
qed

end
